theory Spec2Isabelle
  imports Complex_Main "HOL-Library.Word"
begin

text \<open>
  A model of the PyChat web client: the React component \<open>App\<close> of the current client (join,
  WebSocket lifecycle with reconnection, message deduplication, rate-limit countdown, typing
  indicator) and the join handler of the legacy client in \<open>frontend/src/App.js\<close>. React state
  and refs are the fields of one record; every handler is a function from the state before to
  the state after; sockets, timers and transmitted frames are part of the state, so that what
  a handler does to them can be stated.
\<close>

section \<open>JavaScript strings\<close>

text \<open>
  A JavaScript string is a sequence of UTF-16 code units; \<open>.length\<close> counts code units and the
  regular expressions of the client (no \<open>u\<close> flag) match one code unit at a time.
\<close>

type_synonym code_unit = "16 word"
type_synonym jsstring = "code_unit list"

text \<open>A literal of the source, written with Latin-1 characters.\<close>

definition js :: "string \<Rightarrow> jsstring" where
  "js cs = map (\<lambda>c. of_char c) cs"

text \<open>
  \<open>String.prototype.trim\<close> removes WhiteSpace and LineTerminator code points from both ends:
  TAB, LF, VT, FF, CR, SP, NBSP, U+1680, U+2000..U+200A, U+2028, U+2029, U+202F, U+205F,
  U+3000 and U+FEFF.
\<close>

definition is_white_space :: "code_unit \<Rightarrow> bool" where
  "is_white_space c \<longleftrightarrow>
     c = 0x9 \<or> c = 0xA \<or> c = 0xB \<or> c = 0xC \<or> c = 0xD \<or> c = 0x20 \<or> c = 0xA0 \<or>
     c = 0x1680 \<or> (0x2000 \<le> c \<and> c \<le> 0x200A) \<or> c = 0x2028 \<or> c = 0x2029 \<or>
     c = 0x202F \<or> c = 0x205F \<or> c = 0x3000 \<or> c = 0xFEFF"

definition trim :: "jsstring \<Rightarrow> jsstring" where
  "trim s = rev (dropWhile is_white_space (rev (dropWhile is_white_space s)))"

text \<open>The character class \<open>[A-Z0-9]\<close>; \<open>.replace(/[^A-Z0-9]/g, '')\<close> keeps exactly its members.\<close>

definition is_AZ09 :: "code_unit \<Rightarrow> bool" where
  "is_AZ09 c \<longleftrightarrow> (0x41 \<le> c \<and> c \<le> 0x5A) \<or> (0x30 \<le> c \<and> c \<le> 0x39)"

definition strip_non_AZ09 :: "jsstring \<Rightarrow> jsstring" where
  "strip_non_AZ09 s = filter is_AZ09 s"

text \<open>The character class \<open>[A-Za-z0-9]\<close> and the test \<open>/^[A-Za-z0-9]+$/.test(s)\<close>.\<close>

definition is_alnum :: "code_unit \<Rightarrow> bool" where
  "is_alnum c \<longleftrightarrow> (0x41 \<le> c \<and> c \<le> 0x5A) \<or> (0x61 \<le> c \<and> c \<le> 0x7A) \<or> (0x30 \<le> c \<and> c \<le> 0x39)"

definition test_alnum :: "jsstring \<Rightarrow> bool" where
  "test_alnum s \<longleftrightarrow> s \<noteq> [] \<and> list_all is_alnum s"

text \<open>
  \<open>String.prototype.toUpperCase\<close> is a built-in of the JavaScript runtime whose Unicode case
  table is not part of the repository (it may lengthen a string: U+00DF becomes \<open>SS\<close>). The
  handlers below take it as the parameter \<open>toUpperCase\<close>. Its restriction to ASCII letters is
  used to run the handlers on concrete ASCII input.
\<close>

definition toUpperCase_ascii :: "jsstring \<Rightarrow> jsstring" where
  "toUpperCase_ascii s = map (\<lambda>c. if 0x61 \<le> c \<and> c \<le> 0x7A then c - 0x20 else c) s"

text \<open>Decimal rendering of an integer, as in \<open>'msg-' + Date.now()\<close>.\<close>

fun digits :: "nat \<Rightarrow> jsstring" where
  "digits n = (if n < 10 then [0x30 + of_nat n] else digits (n div 10) @ [0x30 + of_nat (n mod 10)])"

declare digits.simps [simp del]

definition string_of_int :: "int \<Rightarrow> jsstring" where
  "string_of_int i = (if i < 0 then 0x2D # digits (nat (- i)) else digits (nat i))"

section \<open>Data of the client\<close>

text \<open>
  The \<open>error\<close> state holds one of the message texts of the source; \<open>No_error\<close> is the empty
  string, every other constructor a non-empty text, which the page renders.
\<close>

datatype error_text =
    No_error
  | Enter_username                \<comment> \<open>Please enter a username\<close>
  | Room_name_length              \<comment> \<open>Room name must be exactly 5 alphanumeric characters\<close>
  | Group_id_length               \<comment> \<open>Group ID must be 1-4 alphanumeric characters\<close>
  | Rate_limited rat              \<comment> \<open>Rate limited! Please wait n seconds before sending another message\<close>
  | Please_wait rat               \<comment> \<open>Please wait n seconds before sending another message\<close>
  | Connection_lost               \<comment> \<open>Connection lost. Attempting to reconnect...\<close>
  | Close_reason jsstring         \<comment> \<open>the (non-empty) reason of the close event\<close>
  | Connection_rejected           \<comment> \<open>Connection rejected. Please check your room name and username.\<close>
  | Server_error                  \<comment> \<open>Server error occurred. Attempting to reconnect...\<close>
  | Connection_closed             \<comment> \<open>Connection closed. Attempting to reconnect...\<close>
  | Reconnecting                  \<comment> \<open>Reconnecting...\<close>
  | Send_failed                   \<comment> \<open>Failed to send message\<close>

datatype message_type = System | User

datatype js_date =
    Date_now int                  \<comment> \<open>\<open>new Date()\<close> at the given clock value\<close>
  | Date_of jsstring              \<comment> \<open>\<open>new Date(data.timestamp)\<close>\<close>

record chat_message =
  msg_id :: jsstring
  msg_type :: message_type
  msg_username :: "jsstring option"
  msg_content :: jsstring
  msg_timestamp :: js_date

text \<open>
  Envelopes received from the server, after \<open>JSON.parse\<close>. A field the handler guards with
  \<open>||\<close> or \<open>&&\<close> is optional (\<open>None\<close>: absent); numbers are rationals.
\<close>

record wire_message =
  message_id :: "jsstring option"
  w_username :: jsstring
  w_content :: jsstring
  w_timestamp :: jsstring

datatype envelope =
    Welcome jsstring "jsstring list option"      \<comment> \<open>message, users\<close>
  | Message wire_message
  | Messages "wire_message list option"
  | User_joined jsstring jsstring                \<comment> \<open>username, timestamp\<close>
  | User_left jsstring jsstring
  | Rate_limit "rat option"                      \<comment> \<open>remaining_seconds\<close>
  | Typing "jsstring list option"                \<comment> \<open>typing_users\<close>
  | Unknown_type

datatype frame =
    Message_frame jsstring        \<comment> \<open>\<open>{ message: ... }\<close>\<close>
  | Typing_frame bool             \<comment> \<open>\<open>{ typing: ... }\<close>\<close>

datatype ready_state = CONNECTING | OPEN | CLOSING | CLOSED

text \<open>
  A WebSocket object: its state, the user and room of its URL, and the \<open>groupId\<close> that its
  \<open>onclose\<close> handler captured when \<open>connectWebSocket\<close> created it.
\<close>

record socket =
  readyState :: ready_state
  ws_user :: jsstring
  ws_group :: jsstring
  closure_groupId :: jsstring

text \<open>
  The callbacks handed to \<open>setTimeout\<close> and \<open>setInterval\<close>: the reconnect attempt (with the
  captured \<open>groupId\<close>), the automatic typing stop (with the \<open>isConnected\<close> captured by
  \<open>sendTypingIndicator\<close>), and the tick of the rate-limit countdown.
\<close>

datatype callback = Reconnect jsstring | Typing_stop bool | Rate_limit_tick

record timer =
  t_handle :: nat
  t_repeat :: bool                \<comment> \<open>\<open>setInterval\<close> rather than \<open>setTimeout\<close>\<close>
  t_delay :: nat                  \<comment> \<open>milliseconds\<close>
  t_callback :: callback

text \<open>
  The component: its React state, its refs, and the part of the browser it acts on (the
  sockets it created, the timers that are pending, the frames handed to \<open>ws.send\<close>).
\<close>

record client =
  isConnected :: bool
  username :: jsstring
  groupId :: jsstring
  messages :: "chat_message list"
  users :: "jsstring list"
  messageInput :: jsstring
  error :: error_text
  rateLimitSeconds :: rat
  isRateLimited :: bool
  pendingMessage :: jsstring
  typingUsers :: "jsstring list"
  wsRef :: "nat option"
  reconnectTimeoutRef :: "nat option"
  rateLimitIntervalRef :: "nat option"
  pendingMessageRef :: jsstring
  usernameRef :: jsstring
  startRateLimitCountdownRef :: bool
  handleWebSocketMessageRef :: bool
  typingTimeoutRef :: "nat option"
  lastTypingSentRef :: int
  sockets :: "nat \<rightharpoonup> socket"
  socket_seq :: nat
  timers :: "timer list"
  timer_seq :: nat
  outbox :: "(nat \<times> frame) list"

section \<open>Browser primitives\<close>

text \<open>
  Timer handles are positive integers, each larger than the last, so a stored handle is
  truthy and \<open>null\<close> is \<open>None\<close>.
\<close>

definition setTimeout :: "callback \<Rightarrow> nat \<Rightarrow> client \<Rightarrow> nat \<times> client" where
  "setTimeout cb ms s =
     (let h = Suc (timer_seq s)
      in (h, s\<lparr>timers := timers s @ [\<lparr>t_handle = h, t_repeat = False, t_delay = ms, t_callback = cb\<rparr>],
               timer_seq := h\<rparr>))"

definition setInterval :: "callback \<Rightarrow> nat \<Rightarrow> client \<Rightarrow> nat \<times> client" where
  "setInterval cb ms s =
     (let h = Suc (timer_seq s)
      in (h, s\<lparr>timers := timers s @ [\<lparr>t_handle = h, t_repeat = True, t_delay = ms, t_callback = cb\<rparr>],
               timer_seq := h\<rparr>))"

text \<open>
  \<open>clearTimeout\<close> and \<open>clearInterval\<close> share one table of handles; \<open>cleared h ts\<close> is the
  table without the timer of handle \<open>h\<close>.
\<close>

definition cleared :: "nat \<Rightarrow> timer list \<Rightarrow> timer list" where
  "cleared h ts = filter (\<lambda>t. t_handle t \<noteq> h) ts"

definition clearTimeout :: "nat \<Rightarrow> client \<Rightarrow> client" where
  "clearTimeout h s = s\<lparr>timers := cleared h (timers s)\<rparr>"

definition clearInterval :: "nat \<Rightarrow> client \<Rightarrow> client" where
  "clearInterval h s = clearTimeout h s"

text \<open>\<open>wsRef.current?.readyState === WebSocket.OPEN\<close>\<close>

definition ws_open :: "client \<Rightarrow> bool" where
  "ws_open s =
     (case wsRef s of None \<Rightarrow> False
      | Some k \<Rightarrow> (case sockets s k of None \<Rightarrow> False | Some sk \<Rightarrow> readyState sk = OPEN))"

text \<open>
  \<open>ws.close(1000, reason)\<close>: a socket that is connecting or open starts closing; a socket
  that is closing or closed stays as it is.
\<close>

definition ws_close :: "nat \<Rightarrow> client \<Rightarrow> client" where
  "ws_close k s =
     (case sockets s k of None \<Rightarrow> s
      | Some sk \<Rightarrow>
          if readyState sk = CONNECTING \<or> readyState sk = OPEN
          then s\<lparr>sockets := (sockets s)(k \<mapsto> sk\<lparr>readyState := CLOSING\<rparr>)\<rparr>
          else s)"

text \<open>
  \<open>wsRef.current.send(JSON.stringify(f))\<close>: \<open>None\<close> is the exception (no socket, or a
  socket still connecting); an open socket transmits the frame; a closing or closed socket
  discards it.
\<close>

definition ws_send :: "frame \<Rightarrow> client \<Rightarrow> client option" where
  "ws_send f s =
     (case wsRef s of None \<Rightarrow> None
      | Some k \<Rightarrow>
          (case sockets s k of None \<Rightarrow> None
           | Some sk \<Rightarrow>
               (case readyState sk of
                  CONNECTING \<Rightarrow> None
                | OPEN \<Rightarrow> Some (s\<lparr>outbox := outbox s @ [(k, f)]\<rparr>)
                | CLOSING \<Rightarrow> Some s
                | CLOSED \<Rightarrow> Some s)))"

section \<open>The handlers of the current client\<close>

subsection \<open>Opening a connection\<close>

text \<open>
  \<open>connectWebSocket(user, group)\<close>; the room is \<open>group\<close> in the source. The first argument
  is the \<open>groupId\<close> state of the render that created this instance of the function
  (\<open>useCallback\<close> with \<open>[groupId]\<close>); the new socket's \<open>onclose\<close> handler reads it. URL
  encoding and the network are the browser's: the model records the socket with the user and
  the room it was opened for.
\<close>

definition connectWebSocket :: "jsstring \<Rightarrow> jsstring \<Rightarrow> jsstring \<Rightarrow> client \<Rightarrow> client" where
  "connectWebSocket g user room s =
     (let s1 = (if ws_open s then (case wsRef s of Some k \<Rightarrow> ws_close k s | None \<Rightarrow> s) else s);
          s2 = (case reconnectTimeoutRef s1 of
                  Some h \<Rightarrow> (clearTimeout h s1)\<lparr>reconnectTimeoutRef := None\<rparr>
                | None \<Rightarrow> s1);
          s3 = s2\<lparr>error := No_error\<rparr>;
          k = Suc (socket_seq s3)
      in s3\<lparr>sockets := (sockets s3)(k \<mapsto>
               \<lparr>readyState = CONNECTING, ws_user = user, ws_group = room, closure_groupId = g\<rparr>),
             socket_seq := k,
             wsRef := Some k\<rparr>)"

text \<open>\<open>ws.onopen\<close>\<close>

definition ws_onopen :: "client \<Rightarrow> client" where
  "ws_onopen s =
     (let s1 = s\<lparr>isConnected := True, error := No_error\<rparr>
      in case reconnectTimeoutRef s1 of
           Some h \<Rightarrow> (clearTimeout h s1)\<lparr>reconnectTimeoutRef := None\<rparr>
         | None \<Rightarrow> s1)"

text \<open>
  \<open>ws.onclose\<close> of a socket whose handler captured \<open>g\<close> as \<open>groupId\<close>, for a close event
  with the given code and reason.
\<close>

definition ws_onclose :: "jsstring \<Rightarrow> nat \<Rightarrow> jsstring \<Rightarrow> client \<Rightarrow> client" where
  "ws_onclose g code reason s =
     (let s1 = s\<lparr>isConnected := False\<rparr>;
          s2 = (if code = 1000 then s1\<lparr>error := No_error\<rparr>
                else if code = 1006 then s1\<lparr>error := Connection_lost\<rparr>
                else if code = 1008
                  then s1\<lparr>error := (if reason \<noteq> [] then Close_reason reason else Connection_rejected)\<rparr>
                else if code = 1011 then s1\<lparr>error := Server_error\<rparr>
                else if code \<noteq> 1000 then s1\<lparr>error := Connection_closed\<rparr>
                else s1)
      in if code \<noteq> 1000 \<and> usernameRef s2 \<noteq> [] \<and> g \<noteq> [] then
           (if reconnectTimeoutRef s2 = None then
              (case setTimeout (Reconnect g) 3000 s2 of
                 (h, s3) \<Rightarrow> s3\<lparr>reconnectTimeoutRef := Some h\<rparr>)
            else s2)
         else s2)"

subsection \<open>The rate-limit countdown\<close>

text \<open>\<open>startRateLimitCountdown(seconds)\<close>\<close>

definition startRateLimitCountdown :: "rat \<Rightarrow> client \<Rightarrow> client" where
  "startRateLimitCountdown seconds s =
     (let s1 = (case rateLimitIntervalRef s of Some h \<Rightarrow> clearInterval h s | None \<Rightarrow> s);
          s2 = s1\<lparr>rateLimitSeconds := seconds, isRateLimited := True\<rparr>
      in case setInterval Rate_limit_tick 1000 s2 of
           (h, s3) \<Rightarrow> s3\<lparr>rateLimitIntervalRef := Some h\<rparr>)"

text \<open>The callback of that interval.\<close>

definition rate_limit_tick :: "client \<Rightarrow> client" where
  "rate_limit_tick s =
     (if rateLimitSeconds s \<le> 1 then
        (let s1 = s\<lparr>isRateLimited := False\<rparr>;
             s2 = (case rateLimitIntervalRef s1 of
                     Some h \<Rightarrow> (clearInterval h s1)\<lparr>rateLimitIntervalRef := None\<rparr>
                   | None \<Rightarrow> s1)
         in s2\<lparr>error := No_error, rateLimitSeconds := 0\<rparr>)
      else s\<lparr>rateLimitSeconds := rateLimitSeconds s - 1\<rparr>)"

subsection \<open>Envelopes from the server\<close>

text \<open>\<open>a || b\<close> for an optional string and for an optional number.\<close>

definition or_string :: "jsstring option \<Rightarrow> jsstring \<Rightarrow> jsstring" where
  "or_string a b = (case a of Some x \<Rightarrow> if x \<noteq> [] then x else b | None \<Rightarrow> b)"

definition or_number :: "rat option \<Rightarrow> rat \<Rightarrow> rat" where
  "or_number a b = (case a of Some x \<Rightarrow> if x \<noteq> 0 then x else b | None \<Rightarrow> b)"

definition system_message :: "int \<Rightarrow> jsstring \<Rightarrow> js_date \<Rightarrow> chat_message" where
  "system_message now content ts =
     \<lparr>msg_id = js ''system-'' @ string_of_int now, msg_type = System, msg_username = None,
      msg_content = content, msg_timestamp = ts\<rparr>"

definition user_message :: "int \<Rightarrow> wire_message \<Rightarrow> chat_message" where
  "user_message now m =
     \<lparr>msg_id = or_string (message_id m) (js ''msg-'' @ string_of_int now), msg_type = User,
      msg_username = Some (w_username m), msg_content = w_content m,
      msg_timestamp = Date_of (w_timestamp m)\<rparr>"

text \<open>\<open>handleWebSocketMessage(data)\<close>, with the value of \<open>Date.now()\<close>.\<close>

fun handleWebSocketMessage :: "envelope \<Rightarrow> int \<Rightarrow> client \<Rightarrow> client" where
  "handleWebSocketMessage (Welcome content us) now s =
     s\<lparr>users := (case us of Some l \<Rightarrow> l | None \<Rightarrow> []),
       messages := system_message now content (Date_now now) # messages s\<rparr>"
| "handleWebSocketMessage (Message m) now s =
     (let messageId = or_string (message_id m) (js ''msg-'' @ string_of_int now)
      in if list_ex (\<lambda>msg. msg_id msg = messageId) (messages s) then s
         else
           (let s1 = (if w_username m = usernameRef s \<and> pendingMessageRef s \<noteq> []
                      then s\<lparr>pendingMessage := [], pendingMessageRef := []\<rparr> else s)
            in s1\<lparr>messages := messages s1 @ [user_message now m]\<rparr>))"
| "handleWebSocketMessage (Messages ms) now s =
     (case ms of
        None \<Rightarrow> s
      | Some l \<Rightarrow>
          (let existingIds = set (map msg_id (messages s));
               newMessages = filter (\<lambda>msg. msg_id msg \<notin> existingIds) (map (user_message now) l)
           in s\<lparr>messages := messages s @ newMessages\<rparr>))"
| "handleWebSocketMessage (User_joined name ts) now s =
     s\<lparr>users := (if name \<notin> set (users s) then users s @ [name] else users s),
       messages := system_message now (name @ js '' joined the group'') (Date_of ts) # messages s\<rparr>"
| "handleWebSocketMessage (User_left name ts) now s =
     s\<lparr>users := filter (\<lambda>u. u \<noteq> name) (users s),
       messages := system_message now (name @ js '' left the group'') (Date_of ts) # messages s\<rparr>"
| "handleWebSocketMessage (Rate_limit r) now s =
     (let remaining = or_number r 5;
          s1 = s\<lparr>rateLimitSeconds := remaining, isRateLimited := True\<rparr>;
          s2 = (if startRateLimitCountdownRef s1 then startRateLimitCountdown remaining s1 else s1);
          s3 = s2\<lparr>error := Rate_limited remaining\<rparr>
      in if pendingMessageRef s3 \<noteq> []
         then s3\<lparr>messageInput := pendingMessageRef s3, pendingMessage := [], pendingMessageRef := []\<rparr>
         else s3)"
| "handleWebSocketMessage (Typing us) now s =
     (case us of
        None \<Rightarrow> s
      | Some l \<Rightarrow> s\<lparr>typingUsers := filter (\<lambda>u. u \<noteq> usernameRef s) l\<rparr>)"
| "handleWebSocketMessage Unknown_type now s = s"

text \<open>
  \<open>ws.onmessage\<close>: \<open>None\<close> is a frame that \<open>JSON.parse\<close> rejects; the exception is caught and
  logged.
\<close>

definition ws_onmessage :: "envelope option \<Rightarrow> int \<Rightarrow> client \<Rightarrow> client" where
  "ws_onmessage d now s =
     (case d of
        None \<Rightarrow> s
      | Some data \<Rightarrow> if handleWebSocketMessageRef s then handleWebSocketMessage data now s else s)"

subsection \<open>Joining\<close>

text \<open>
  \<open>handleJoin\<close> of the current client. It runs in a render whose \<open>groupId\<close> state is the raw
  input, so that is the value the \<open>connectWebSocket\<close> of that render has captured.
\<close>

definition handleJoin :: "(jsstring \<Rightarrow> jsstring) \<Rightarrow> client \<Rightarrow> client" where
  "handleJoin toUpperCase s =
     (let trimmedUsername = trim (username s);
          trimmedGroupId = strip_non_AZ09 (toUpperCase (trim (groupId s)))
      in if trimmedUsername = [] then s\<lparr>error := Enter_username\<rparr>
         else if length trimmedGroupId \<noteq> 5 then s\<lparr>error := Room_name_length\<rparr>
         else connectWebSocket (groupId s) trimmedUsername trimmedGroupId
                (s\<lparr>groupId := trimmedGroupId\<rparr>))"

text \<open>
  \<open>handleJoin\<close> of the legacy client (\<open>frontend/src/App.js\<close>), as a function of its
  \<open>username\<close> and \<open>groupId\<close> state: it either shows an error and returns, or stores the
  room and calls its \<open>connectWebSocket\<close> with the user and the room.
\<close>

datatype join_outcome = Join_refused error_text | Join_connect jsstring jsstring

definition legacy_handleJoin :: "(jsstring \<Rightarrow> jsstring) \<Rightarrow> jsstring \<Rightarrow> jsstring \<Rightarrow> join_outcome" where
  "legacy_handleJoin toUpperCase uname gid =
     (let trimmedUsername = trim uname;
          trimmedGroupId = toUpperCase (trim gid)
      in if trimmedUsername = [] then Join_refused Enter_username
         else if trimmedGroupId = [] \<or> length trimmedGroupId > 4 \<or> \<not> test_alnum trimmedGroupId
           then Join_refused Group_id_length
         else Join_connect trimmedUsername trimmedGroupId)"

fun is_connect :: "join_outcome \<Rightarrow> bool" where
  "is_connect (Join_connect u g) = True"
| "is_connect (Join_refused e) = False"

subsection \<open>Typing indicator, sending, leaving\<close>

text \<open>
  \<open>sendTypingIndicator(isTyping)\<close>, with the \<open>isConnected\<close> its instance captured
  (\<open>useCallback\<close> with \<open>[isConnected]\<close>) and the value of \<open>Date.now()\<close>. An exception of
  \<open>send\<close> is caught and logged.
\<close>

definition sendTypingIndicator :: "bool \<Rightarrow> bool \<Rightarrow> int \<Rightarrow> client \<Rightarrow> client" where
  "sendTypingIndicator conn isTyping now s =
     (if \<not> conn \<or> \<not> ws_open s then s
      else if isTyping \<and> now - lastTypingSentRef s < 1000 then s
      else
        (let s1 = s\<lparr>lastTypingSentRef := now\<rparr>
         in case ws_send (Typing_frame isTyping) s1 of
              None \<Rightarrow> s1
            | Some s2 \<Rightarrow>
                (let s3 = (case typingTimeoutRef s2 of Some h \<Rightarrow> clearTimeout h s2 | None \<Rightarrow> s2)
                 in if isTyping then
                      (case setTimeout (Typing_stop conn) 2000 s3 of
                         (h, s4) \<Rightarrow> s4\<lparr>typingTimeoutRef := Some h\<rparr>)
                    else s3)))"

text \<open>The restore of the blocked message, in the \<open>catch\<close> of \<open>handleSendMessage\<close>.\<close>

definition restore_pending :: "client \<Rightarrow> client" where
  "restore_pending s =
     (if pendingMessageRef s \<noteq> []
      then s\<lparr>messageInput := pendingMessageRef s, pendingMessage := [], pendingMessageRef := []\<rparr>
      else s)"

text \<open>
  \<open>handleSendMessage\<close>, with the value of \<open>Date.now()\<close>. The \<open>catch\<close> branch is the case
  \<open>None\<close> of \<open>ws_send\<close>.
\<close>

definition handleSendMessage :: "int \<Rightarrow> client \<Rightarrow> client" where
  "handleSendMessage now s =
     (let trimmed = trim (messageInput s)
      in if trimmed = [] \<or> \<not> isConnected s \<or> \<not> ws_open s then s
         else if isRateLimited s then s\<lparr>error := Please_wait (rateLimitSeconds s)\<rparr>
         else
           (let s1 = sendTypingIndicator (isConnected s) False now s;
                s2 = s1\<lparr>pendingMessage := trimmed, pendingMessageRef := trimmed\<rparr>
            in case ws_send (Message_frame trimmed) s2 of
                 None \<Rightarrow> restore_pending (s2\<lparr>error := Send_failed\<rparr>)
               | Some s3 \<Rightarrow>
                   (let s4 = s3\<lparr>messageInput := [], error := No_error\<rparr>
                    in if startRateLimitCountdownRef s4 then startRateLimitCountdown 5 s4 else s4)))"

text \<open>\<open>handleDisconnect\<close>\<close>

definition handleDisconnect :: "client \<Rightarrow> client" where
  "handleDisconnect s =
     (let s1 = (if ws_open s
                then (case ws_send (Typing_frame False) s of Some s' \<Rightarrow> s' | None \<Rightarrow> s)
                else s);
          s2 = (case wsRef s1 of Some k \<Rightarrow> (ws_close k s1)\<lparr>wsRef := None\<rparr> | None \<Rightarrow> s1);
          s3 = s2\<lparr>isConnected := False, messages := [], users := [], typingUsers := [],
                  username := [], groupId := [], error := No_error\<rparr>;
          s4 = (case reconnectTimeoutRef s3 of
                  Some h \<Rightarrow> (clearTimeout h s3)\<lparr>reconnectTimeoutRef := None\<rparr>
                | None \<Rightarrow> s3)
      in case typingTimeoutRef s4 of
           Some h \<Rightarrow> (clearTimeout h s4)\<lparr>typingTimeoutRef := None\<rparr>
         | None \<Rightarrow> s4)"

text \<open>\<open>handleInputChange\<close>, with the new value of the input and the value of \<open>Date.now()\<close>.\<close>

definition handleInputChange :: "jsstring \<Rightarrow> int \<Rightarrow> client \<Rightarrow> client" where
  "handleInputChange v now s =
     (let s1 = s\<lparr>messageInput := v\<rparr>
      in if trim v \<noteq> [] \<and> \<not> isRateLimited s
         then sendTypingIndicator (isConnected s) True now s1
         else sendTypingIndicator (isConnected s) False now s1)"

text \<open>The cleanup of the unmount effect.\<close>

definition unmount :: "client \<Rightarrow> client" where
  "unmount s =
     (let s1 = (if ws_open s then (case wsRef s of Some k \<Rightarrow> ws_close k s | None \<Rightarrow> s) else s);
          s2 = (case reconnectTimeoutRef s1 of Some h \<Rightarrow> clearTimeout h s1 | None \<Rightarrow> s1);
          s3 = (case rateLimitIntervalRef s2 of Some h \<Rightarrow> clearInterval h s2 | None \<Rightarrow> s2);
          s4 = (case typingTimeoutRef s3 of Some h \<Rightarrow> clearTimeout h s3 | None \<Rightarrow> s3)
      in if ws_open s4
         then (case ws_send (Typing_frame False) s4 of Some s' \<Rightarrow> s' | None \<Rightarrow> s4)
         else s4)"

section \<open>The client as a transition system\<close>

text \<open>
  The state after the first render: nothing entered, no socket, no timer; the effects have
  stored the handlers in their refs.
\<close>

definition mounted :: client where
  "mounted =
     \<lparr>isConnected = False, username = [], groupId = [], messages = [], users = [],
      messageInput = [], error = No_error, rateLimitSeconds = 0, isRateLimited = False,
      pendingMessage = [], typingUsers = [], wsRef = None, reconnectTimeoutRef = None,
      rateLimitIntervalRef = None, pendingMessageRef = [], usernameRef = [],
      startRateLimitCountdownRef = True, handleWebSocketMessageRef = True,
      typingTimeoutRef = None, lastTypingSentRef = 0, sockets = Map.empty, socket_seq = 0,
      timers = [], timer_seq = 0, outbox = []\<rparr>"

text \<open>The effects that run after a render: the refs follow the state.\<close>

definition render_effects :: "client \<Rightarrow> client" where
  "render_effects s =
     s\<lparr>usernameRef := username s, startRateLimitCountdownRef := True,
       handleWebSocketMessageRef := True\<rparr>"

text \<open>What the browser does when a timer is due: a timeout leaves the table, an interval stays.\<close>

definition run_callback :: "callback \<Rightarrow> int \<Rightarrow> client \<Rightarrow> client" where
  "run_callback cb now s =
     (case cb of
        Reconnect g \<Rightarrow> connectWebSocket g (usernameRef s) g (s\<lparr>error := Reconnecting\<rparr>)
      | Typing_stop conn \<Rightarrow> sendTypingIndicator conn False now s
      | Rate_limit_tick \<Rightarrow> rate_limit_tick s)"

definition timer_fire :: "nat \<Rightarrow> int \<Rightarrow> client \<Rightarrow> client" where
  "timer_fire h now s =
     (case find (\<lambda>t. t_handle t = h) (timers s) of
        None \<Rightarrow> s
      | Some t \<Rightarrow> run_callback (t_callback t) now (if t_repeat t then s else clearTimeout h s))"

text \<open>
  The events of the page. The join form is rendered while \<open>isConnected\<close> is false, the chat
  while it is true; socket events reach the handlers of the socket they belong to.
\<close>

datatype event =
    Username_input jsstring
  | Room_input jsstring
  | Submit_join
  | Input_change jsstring int
  | Submit_message int
  | Click_leave
  | Ws_open nat
  | Ws_message nat "envelope option" int
  | Ws_error nat
  | Ws_close nat nat jsstring
  | Timer_fire nat int
  | Unmount

fun handle_event :: "(jsstring \<Rightarrow> jsstring) \<Rightarrow> event \<Rightarrow> client \<Rightarrow> client" where
  "handle_event U (Username_input v) s = (if isConnected s then s else s\<lparr>username := v\<rparr>)"
| "handle_event U (Room_input v) s =
     (if isConnected s then s else s\<lparr>groupId := take 5 (strip_non_AZ09 (U v))\<rparr>)"
| "handle_event U Submit_join s = (if isConnected s then s else handleJoin U s)"
| "handle_event U (Input_change v now) s = (if isConnected s then handleInputChange v now s else s)"
| "handle_event U (Submit_message now) s = (if isConnected s then handleSendMessage now s else s)"
| "handle_event U Click_leave s = (if isConnected s then handleDisconnect s else s)"
| "handle_event U (Ws_open k) s =
     (case sockets s k of
        None \<Rightarrow> s
      | Some sk \<Rightarrow>
          if readyState sk = CONNECTING
          then ws_onopen (s\<lparr>sockets := (sockets s)(k \<mapsto> sk\<lparr>readyState := OPEN\<rparr>)\<rparr>)
          else s)"
| "handle_event U (Ws_message k d now) s =
     (case sockets s k of
        None \<Rightarrow> s
      | Some sk \<Rightarrow>
          if readyState sk = OPEN \<or> readyState sk = CLOSING then ws_onmessage d now s else s)"
| "handle_event U (Ws_error k) s = s"
| "handle_event U (Ws_close k code reason) s =
     (case sockets s k of
        None \<Rightarrow> s
      | Some sk \<Rightarrow>
          if readyState sk \<noteq> CLOSED
          then ws_onclose (closure_groupId sk) code reason
                 (s\<lparr>sockets := (sockets s)(k \<mapsto> sk\<lparr>readyState := CLOSED\<rparr>)\<rparr>)
          else s)"
| "handle_event U (Timer_fire h now) s = timer_fire h now s"
| "handle_event U Unmount s = unmount s"

definition step :: "(jsstring \<Rightarrow> jsstring) \<Rightarrow> event \<Rightarrow> client \<Rightarrow> client" where
  "step U ev s = render_effects (handle_event U ev s)"

text \<open>Running a list of events from a state; the reachable states are \<open>run U evs mounted\<close>.\<close>

definition run :: "(jsstring \<Rightarrow> jsstring) \<Rightarrow> event list \<Rightarrow> client \<Rightarrow> client" where
  "run U evs s = foldl (\<lambda>s ev. step U ev s) s evs"

section \<open>Pending timers and the refs that hold their handles\<close>

text \<open>
  Each kind of callback has one ref: \<open>reconnectTimeoutRef\<close>, \<open>typingTimeoutRef\<close> and
  \<open>rateLimitIntervalRef\<close>. \<open>ref_of cb r t i\<close> selects, among the values \<open>r\<close>, \<open>t\<close>, \<open>i\<close> of the
  three refs, the one that belongs to the callback \<open>cb\<close>.
\<close>

fun ref_of :: "callback \<Rightarrow> nat option \<Rightarrow> nat option \<Rightarrow> nat option \<Rightarrow> nat option" where
  "ref_of (Reconnect g) r t i = r"
| "ref_of (Typing_stop c) r t i = t"
| "ref_of Rate_limit_tick r t i = i"

fun is_reconnect :: "timer \<Rightarrow> bool" where
  "is_reconnect t = (case t_callback t of Reconnect g \<Rightarrow> True | _ \<Rightarrow> False)"

text \<open>
  The invariant of the timer table: the handle of every pending timer is in the ref of its
  kind, and at most one reconnect timer is pending.
\<close>

definition tracked :: "timer list \<Rightarrow> nat option \<Rightarrow> nat option \<Rightarrow> nat option \<Rightarrow> bool" where
  "tracked ts r t i \<longleftrightarrow>
     (\<forall>x \<in> set ts. ref_of (t_callback x) r t i = Some (t_handle x)) \<and>
     length (filter is_reconnect ts) \<le> 1"

definition timers_tracked :: "client \<Rightarrow> bool" where
  "timers_tracked s \<longleftrightarrow>
     tracked (timers s) (reconnectTimeoutRef s) (typingTimeoutRef s) (rateLimitIntervalRef s)"

section \<open>Concrete sessions\<close>


definition join_bob :: client where
  "join_bob = run toUpperCase_ascii
     [Username_input (js ''bob''), Room_input (js ''ab1'')] mounted"

text \<open>Alice has joined room \<open>ABC12\<close> and her socket is open.\<close>

definition alice_joined :: client where
  "alice_joined = run toUpperCase_ascii
     [Username_input (js ''alice''), Room_input (js ''abc12''), Submit_join, Ws_open 1] mounted"


definition alice_sent :: client where
  "alice_sent = run toUpperCase_ascii
     [Input_change (js ''hi'') 5000, Submit_message 6000] alice_joined"

definition alice_retyped :: client where
  "alice_retyped = step toUpperCase_ascii (Input_change (js ''again'') 6500) alice_sent"

text \<open>The server's broadcast of her message.\<close>

definition echo_hi :: wire_message where
  "echo_hi = \<lparr>message_id = Some (js ''m1''), w_username = js ''alice'', w_content = js ''hi'',
              w_timestamp = js ''2024-01-01T00:00:06Z''\<rparr>"

section \<open>Joining: validation of the username and the room\<close>






text \<open>
  C5. No room input is accepted by both join handlers: when the legacy handler connects, the
  uppercased input has at most 4 code units, so what is left of it after stripping cannot have
  length 5, and the current handler creates no socket. This holds for every \<open>toUpperCase\<close>.
\<close>

theorem join_rules_exclusive:
  "\<not> (is_connect (legacy_handleJoin U u (groupId s)) \<and>
      socket_seq (handleJoin U s) \<noteq> socket_seq s)"
proof
  assume a: "is_connect (legacy_handleJoin U u (groupId s)) \<and>
      socket_seq (handleJoin U s) \<noteq> socket_seq s"
  from a have "length (U (trim (groupId s))) \<le> 4"
    by (auto simp: legacy_handleJoin_def Let_def split: if_splits)
  moreover have "length (strip_non_AZ09 (U (trim (groupId s)))) \<le> length (U (trim (groupId s)))"
    by (simp add: strip_non_AZ09_def)
  moreover from a have "length (strip_non_AZ09 (U (trim (groupId s)))) = 5"
    by (auto simp: handleJoin_def Let_def split: if_splits)
  ultimately show False by simp
qed

theorem join_rules_exclusive_witness:
  "legacy_handleJoin toUpperCase_ascii (js ''bob'') (groupId join_bob) =
     Join_connect (js ''bob'') (js ''AB1'') \<and>
   socket_seq (handleJoin toUpperCase_ascii join_bob) = socket_seq join_bob"
proof -
  have a: "legacy_handleJoin toUpperCase_ascii (js ''bob'') (groupId join_bob) =
     Join_connect (js ''bob'') (js ''AB1'')"
    by code_simp
  from join_rules_exclusive [of toUpperCase_ascii "js ''bob''" join_bob] a
  show ?thesis by simp
qed

section \<open>Envelopes: deduplication, rate limit, typing list\<close>

text \<open>
  C2. For a \<open>message\<close> envelope with a server-assigned (present, non-empty) \<open>message_id\<close>:
  if a rendered message already has that id, the rendered list stays as it is; and handling
  the envelope a second time, at any clock value, leaves the list as the first handling
  made it. The echo of the client's own message is the case \<open>w_username m = usernameRef s\<close>.
\<close>

theorem message_dedup:
  assumes "message_id m = Some i" and "i \<noteq> []"
  shows "(list_ex (\<lambda>x. msg_id x = i) (messages s) \<longrightarrow>
            messages (handleWebSocketMessage (Message m) now s) = messages s) \<and>
         messages (handleWebSocketMessage (Message m) now' (handleWebSocketMessage (Message m) now s))
           = messages (handleWebSocketMessage (Message m) now s)"
proof -
  have id: "or_string (message_id m) d = i" for d
    using assms by (simp add: or_string_def)
  have 1: "handleWebSocketMessage (Message m) t s' = s'"
    if "list_ex (\<lambda>x. msg_id x = i) (messages s')" for t s'
    using that by (simp add: id Let_def)
  have 2: "list_ex (\<lambda>x. msg_id x = i) (messages (handleWebSocketMessage (Message m) now s))"
    by (auto simp: id Let_def user_message_def list_ex_iff)
  from 1 [OF 2] 1 show ?thesis by simp
qed

theorem message_dedup_witness:
  "message_id echo_hi = Some (js ''m1'') \<and> js ''m1'' \<noteq> [] \<and>
   map msg_id (messages (handleWebSocketMessage (Message echo_hi) 6100 alice_sent)) = [js ''m1''] \<and>
   map msg_id (messages (handleWebSocketMessage (Message echo_hi) 6200
     (handleWebSocketMessage (Message echo_hi) 6100 alice_sent))) = [js ''m1'']"
proof -
  have a: "message_id echo_hi = Some (js ''m1'')" by (simp add: echo_hi_def)
  have b: "js ''m1'' \<noteq> []" by (simp add: js_def)
  have e: "messages alice_sent = []" by code_simp
  have c: "map msg_id (messages (handleWebSocketMessage (Message echo_hi) 6100 alice_sent)) = [js ''m1'']"
    using e by (simp add: echo_hi_def Let_def or_string_def user_message_def js_def)
  from message_dedup [OF a b, of alice_sent 6100 6200] a b c show ?thesis by simp
qed




lemma rate_limit_tick_fields:
  "rateLimitSeconds (rate_limit_tick s)
     = (if rateLimitSeconds s \<le> 1 then 0 else rateLimitSeconds s - 1)"
  "isRateLimited (rate_limit_tick s)
     = (if rateLimitSeconds s \<le> 1 then False else isRateLimited s)"
  by (simp_all add: rate_limit_tick_def Let_def clearInterval_def clearTimeout_def
      split: option.splits)

lemma countdown_five:
  assumes "rateLimitSeconds s = 5" and "isRateLimited s"
  shows "isRateLimited ((rate_limit_tick ^^ 4) s) \<and> \<not> isRateLimited ((rate_limit_tick ^^ 5) s)"
  using assms by (simp add: eval_nat_numeral rate_limit_tick_fields)

text \<open>
  C9. A \<open>rate_limit\<close> envelope whose \<open>remaining_seconds\<close> is absent or 0 gives the countdown
  state 5; with the countdown function in its ref, an interval of 1000 ms that ticks it down
  is started and its handle stored; the client is still rate limited after four ticks and no
  longer after the fifth.
\<close>

theorem rate_limit_default_five:
  assumes "r = None \<or> r = Some 0"
  shows "rateLimitSeconds (handleWebSocketMessage (Rate_limit r) now s) = 5 \<and>
         isRateLimited (handleWebSocketMessage (Rate_limit r) now s) \<and>
         error (handleWebSocketMessage (Rate_limit r) now s) = Rate_limited 5 \<and>
         (startRateLimitCountdownRef s \<longrightarrow>
            rateLimitIntervalRef (handleWebSocketMessage (Rate_limit r) now s)
              = Some (Suc (timer_seq s)) \<and>
            last (timers (handleWebSocketMessage (Rate_limit r) now s)) =
              \<lparr>t_handle = Suc (timer_seq s), t_repeat = True, t_delay = 1000,
               t_callback = Rate_limit_tick\<rparr>) \<and>
         isRateLimited ((rate_limit_tick ^^ 4) (handleWebSocketMessage (Rate_limit r) now s)) \<and>
         \<not> isRateLimited ((rate_limit_tick ^^ 5) (handleWebSocketMessage (Rate_limit r) now s))"
proof -
  let ?s = "handleWebSocketMessage (Rate_limit r) now s"
  have a: "rateLimitSeconds ?s = 5 \<and> isRateLimited ?s \<and> error ?s = Rate_limited 5 \<and>
         (startRateLimitCountdownRef s \<longrightarrow>
            rateLimitIntervalRef ?s = Some (Suc (timer_seq s)) \<and>
            last (timers ?s) =
              \<lparr>t_handle = Suc (timer_seq s), t_repeat = True, t_delay = 1000,
               t_callback = Rate_limit_tick\<rparr>)"
    using assms
    by (auto simp: Let_def or_number_def startRateLimitCountdown_def setInterval_def
        clearTimeout_def clearInterval_def split: option.splits)
  then have "isRateLimited ((rate_limit_tick ^^ 4) ?s) \<and>
      \<not> isRateLimited ((rate_limit_tick ^^ 5) ?s)"
    by (intro countdown_five) simp_all
  with a show ?thesis by simp
qed

theorem rate_limit_default_five_witness:
  "startRateLimitCountdownRef alice_joined \<and> timer_seq alice_joined = 0 \<and>
   rateLimitSeconds (handleWebSocketMessage (Rate_limit None) 6100 alice_joined) = 5 \<and>
   rateLimitSeconds (handleWebSocketMessage (Rate_limit (Some 0)) 6100 alice_joined) = 5 \<and>
   rateLimitIntervalRef (handleWebSocketMessage (Rate_limit (Some 0)) 6100 alice_joined) = Some 1"
proof -
  have a: "startRateLimitCountdownRef alice_joined" "timer_seq alice_joined = 0" by code_simp+
  from rate_limit_default_five [of None 6100 alice_joined]
    rate_limit_default_five [of "Some 0" 6100 alice_joined] a
  show ?thesis by simp
qed





section \<open>Sending while rate limited; the typing debounce\<close>

text \<open>
  C7. With the rate-limited flag set, \<open>handleSendMessage\<close> hands no frame to the socket and
  leaves the message input, the rendered messages, the sockets and the pending timers as they
  are, and the flag stays set; the same holds for the submit event as a whole.
\<close>

theorem rate_limited_send_is_local:
  assumes "isRateLimited s"
  shows "outbox (handleSendMessage now s) = outbox s \<and>
         messageInput (handleSendMessage now s) = messageInput s \<and>
         messages (handleSendMessage now s) = messages s \<and>
         sockets (handleSendMessage now s) = sockets s \<and>
         timers (handleSendMessage now s) = timers s \<and>
         isRateLimited (handleSendMessage now s) \<and>
         outbox (step U (Submit_message now) s) = outbox s \<and>
         messageInput (step U (Submit_message now) s) = messageInput s \<and>
         messages (step U (Submit_message now) s) = messages s"
proof -
  have "handleSendMessage now s = s \<or>
      handleSendMessage now s = s\<lparr>error := Please_wait (rateLimitSeconds s)\<rparr>"
    using assms by (simp add: handleSendMessage_def Let_def)
  then show ?thesis
    using assms by (auto simp: step_def render_effects_def)
qed

theorem rate_limited_send_is_local_witness:
  "isRateLimited alice_retyped \<and> messageInput alice_retyped = js ''again'' \<and>
   outbox (handleSendMessage 7000 alice_retyped) = outbox alice_retyped \<and>
   messageInput (handleSendMessage 7000 alice_retyped) = js ''again'' \<and>
   error (handleSendMessage 7000 alice_retyped) = Please_wait 5"
proof -
  have a: "isRateLimited alice_retyped" by code_simp
  have b: "messageInput alice_retyped = js ''again''" by code_simp
  have c: "error (handleSendMessage 7000 alice_retyped) = Please_wait 5" by code_simp
  from rate_limited_send_is_local [OF a, of 7000] a b c show ?thesis by simp
qed

lemma sendTypingIndicator_sent_stamp:
  assumes "outbox (sendTypingIndicator c b t0 s) \<noteq> outbox s"
  shows "lastTypingSentRef (sendTypingIndicator c b t0 s) = t0"
  using assms
  by (auto simp: sendTypingIndicator_def Let_def ws_send_def ws_open_def setTimeout_def
      clearTimeout_def split: option.splits ready_state.splits if_splits)

text \<open>
  C10. A call \<open>sendTypingIndicator(true)\<close> at a clock value less than 1000 ms after
  \<open>lastTypingSentRef\<close> changes nothing, so it sends no frame; a call of \<open>sendTypingIndicator\<close>
  that transmitted a frame at \<open>t0\<close> has set \<open>lastTypingSentRef\<close> to \<open>t0\<close>, so a
  \<open>sendTypingIndicator(true)\<close> less than 1000 ms after it changes nothing; and
  \<open>sendTypingIndicator(false)\<close>, connected and with an open socket, transmits its frame
  whatever \<open>lastTypingSentRef\<close> is.
\<close>

theorem typing_debounce:
  "(now - lastTypingSentRef s < 1000 \<longrightarrow> sendTypingIndicator c True now s = s) \<and>
   (outbox (sendTypingIndicator c b t0 s) \<noteq> outbox s \<and> now - t0 < 1000 \<longrightarrow>
      sendTypingIndicator c' True now (sendTypingIndicator c b t0 s)
        = sendTypingIndicator c b t0 s) \<and>
   (c \<and> ws_open s \<and> wsRef s = Some k \<longrightarrow>
      outbox (sendTypingIndicator c False now s) = outbox s @ [(k, Typing_frame False)])"
proof (intro conjI impI)
  assume "now - lastTypingSentRef s < 1000"
  then show "sendTypingIndicator c True now s = s"
    by (simp add: sendTypingIndicator_def)
next
  assume a: "outbox (sendTypingIndicator c b t0 s) \<noteq> outbox s \<and> now - t0 < 1000"
  then have "lastTypingSentRef (sendTypingIndicator c b t0 s) = t0"
    by (simp add: sendTypingIndicator_sent_stamp)
  with a show "sendTypingIndicator c' True now (sendTypingIndicator c b t0 s)
      = sendTypingIndicator c b t0 s"
    by (simp add: sendTypingIndicator_def [of c' True])
next
  assume "c \<and> ws_open s \<and> wsRef s = Some k"
  then show "outbox (sendTypingIndicator c False now s) = outbox s @ [(k, Typing_frame False)]"
    by (auto simp: sendTypingIndicator_def Let_def ws_send_def ws_open_def clearTimeout_def
        split: option.splits ready_state.splits)
qed

theorem typing_debounce_witness:
  "outbox (sendTypingIndicator True True 5000 alice_joined) = [(1, Typing_frame True)] \<and>
   outbox (sendTypingIndicator True True 5999 (sendTypingIndicator True True 5000 alice_joined))
     = [(1, Typing_frame True)] \<and>
   outbox (sendTypingIndicator True False 5001 (sendTypingIndicator True True 5000 alice_joined))
     = [(1, Typing_frame True), (1, Typing_frame False)]"
proof -
  let ?s = "sendTypingIndicator True True 5000 alice_joined"
  have a: "outbox alice_joined = []" by code_simp
  have b: "outbox ?s = [(1, Typing_frame True)]" by code_simp
  have c: "ws_open ?s" "wsRef ?s = Some 1" by code_simp+
  from typing_debounce [of 5999 alice_joined True True 5000 True]
    typing_debounce [of 5001 ?s True True 5000 True 1] a b c
  show ?thesis by simp
qed

section \<open>Timers: the invariant of the timer table\<close>

lemma length_filter_cleared: "length (filter P (cleared h ts)) \<le> length (filter P ts)"
  unfolding cleared_def by (induction ts) auto

lemma tracked_Nil: "tracked [] r t i"
  by (simp add: tracked_def)

lemma tracked_cleared:
  assumes "tracked ts r t i"
    and "r' = r \<or> r = Some h" and "t' = t \<or> t = Some h" and "i' = i \<or> i = Some h"
  shows "tracked (cleared h ts) r' t' i'"
proof -
  have "ref_of (t_callback x) r' t' i' = Some (t_handle x)" if "x \<in> set (cleared h ts)" for x
  proof -
    from that have x: "x \<in> set ts" "t_handle x \<noteq> h" by (auto simp: cleared_def)
    with assms(1) have "ref_of (t_callback x) r t i = Some (t_handle x)"
      by (simp add: tracked_def)
    with x assms(2-4) show ?thesis by (cases "t_callback x") auto
  qed
  moreover have "length (filter is_reconnect (cleared h ts)) \<le> 1"
    using assms(1) length_filter_cleared [of is_reconnect h ts] by (simp add: tracked_def)
  ultimately show ?thesis by (simp add: tracked_def)
qed

lemma tracked_cleared_same: "tracked ts r t i \<Longrightarrow> tracked (cleared h ts) r t i"
  by (auto intro: tracked_cleared)

lemma tracked_cleared_reconnect: "tracked ts (Some h) t i \<Longrightarrow> tracked (cleared h ts) None t i"
  by (auto intro: tracked_cleared)

lemma tracked_cleared_typing: "tracked ts r (Some h) i \<Longrightarrow> tracked (cleared h ts) r None i"
  by (auto intro: tracked_cleared)

lemma tracked_cleared_tick: "tracked ts r t (Some h) \<Longrightarrow> tracked (cleared h ts) r t None"
  by (auto intro: tracked_cleared)

lemma tracked_clear_opt:
  assumes "tracked ts r t i"
  shows "tracked ((case x of Some h \<Rightarrow> cleared h | None \<Rightarrow> (\<lambda>ts. ts)) ts) r t i"
  using assms by (cases x) (simp_all add: tracked_cleared_same)

lemma tracked_no_reconnect:
  assumes "tracked ts None t i"
  shows "filter is_reconnect ts = []"
proof -
  have "\<not> is_reconnect x" if "x \<in> set ts" for x
    using assms that by (cases "t_callback x") (auto simp: tracked_def)
  then show ?thesis by (simp add: filter_empty_conv)
qed



lemma tracked_add_reconnect:
  assumes "tracked ts None t i"
  shows "tracked (ts @ [\<lparr>t_handle = h, t_repeat = b, t_delay = d, t_callback = Reconnect g\<rparr>])
           (Some h) t i"
proof -
  have "ref_of (t_callback x) (Some h) t i = Some (t_handle x)" if "x \<in> set ts" for x
    using assms that by (cases "t_callback x") (auto simp: tracked_def)
  then show ?thesis
    using tracked_no_reconnect [OF assms] by (auto simp: tracked_def)
qed

lemma tracked_add_typing:
  assumes "tracked ts r None i"
  shows "tracked (ts @ [\<lparr>t_handle = h, t_repeat = b, t_delay = d, t_callback = Typing_stop c\<rparr>])
           r (Some h) i"
proof -
  have "ref_of (t_callback x) r (Some h) i = Some (t_handle x)" if "x \<in> set ts" for x
    using assms that by (cases "t_callback x") (auto simp: tracked_def)
  then show ?thesis
    using assms by (auto simp: tracked_def)
qed

lemma tracked_add_tick:
  assumes "tracked ts r t None"
  shows "tracked (ts @ [\<lparr>t_handle = h, t_repeat = b, t_delay = d, t_callback = Rate_limit_tick\<rparr>])
           r t (Some h)"
proof -
  have "ref_of (t_callback x) r t (Some h) = Some (t_handle x)" if "x \<in> set ts" for x
    using assms that by (cases "t_callback x") (auto simp: tracked_def)
  then show ?thesis
    using assms by (auto simp: tracked_def)
qed

subsection \<open>What the primitives do to the table and the refs\<close>

lemma timers_clearTimeout [simp]: "timers (clearTimeout h s) = cleared h (timers s)"
  by (simp add: clearTimeout_def)

lemma refs_clearTimeout [simp]:
  "reconnectTimeoutRef (clearTimeout h s) = reconnectTimeoutRef s"
  "typingTimeoutRef (clearTimeout h s) = typingTimeoutRef s"
  "rateLimitIntervalRef (clearTimeout h s) = rateLimitIntervalRef s"
  by (simp_all add: clearTimeout_def)

lemma clearInterval_eq [simp]: "clearInterval h s = clearTimeout h s"
  by (simp add: clearInterval_def)

lemma timers_ws_close [simp]:
  "timers (ws_close k s) = timers s"
  "reconnectTimeoutRef (ws_close k s) = reconnectTimeoutRef s"
  "typingTimeoutRef (ws_close k s) = typingTimeoutRef s"
  "rateLimitIntervalRef (ws_close k s) = rateLimitIntervalRef s"
  by (simp_all add: ws_close_def split: option.splits)

lemma timers_ws_send:
  assumes "ws_send f s = Some s'"
  shows "timers s' = timers s" "reconnectTimeoutRef s' = reconnectTimeoutRef s"
    "typingTimeoutRef s' = typingTimeoutRef s" "rateLimitIntervalRef s' = rateLimitIntervalRef s"
  using assms by (auto simp: ws_send_def split: option.splits ready_state.splits)

lemma try_send_fields [simp]:
  "timers (case ws_send f s of Some s' \<Rightarrow> s' | None \<Rightarrow> s) = timers s"
  "reconnectTimeoutRef (case ws_send f s of Some s' \<Rightarrow> s' | None \<Rightarrow> s) = reconnectTimeoutRef s"
  "typingTimeoutRef (case ws_send f s of Some s' \<Rightarrow> s' | None \<Rightarrow> s) = typingTimeoutRef s"
  "rateLimitIntervalRef (case ws_send f s of Some s' \<Rightarrow> s' | None \<Rightarrow> s) = rateLimitIntervalRef s"
  by (cases "ws_send f s"; simp add: timers_ws_send)+

lemma ws_onclose_timers:
  "timers (ws_onclose g code reason s) =
     (if code \<noteq> 1000 \<and> usernameRef s \<noteq> [] \<and> g \<noteq> [] \<and> reconnectTimeoutRef s = None
      then timers s @ [\<lparr>t_handle = Suc (timer_seq s), t_repeat = False, t_delay = 3000,
                        t_callback = Reconnect g\<rparr>]
      else timers s)"
  by (simp add: ws_onclose_def Let_def setTimeout_def)

lemma connectWebSocket_timers:
  "timers (connectWebSocket g u r s) =
     (case reconnectTimeoutRef s of Some h \<Rightarrow> cleared h (timers s) | None \<Rightarrow> timers s)"
  "reconnectTimeoutRef (connectWebSocket g u r s) = None"
  "typingTimeoutRef (connectWebSocket g u r s) = typingTimeoutRef s"
  "rateLimitIntervalRef (connectWebSocket g u r s) = rateLimitIntervalRef s"
  by (simp_all add: connectWebSocket_def Let_def split: option.splits)

lemma handleDisconnect_timers:
  "timers (handleDisconnect s) =
     (case typingTimeoutRef s of Some h \<Rightarrow> cleared h | None \<Rightarrow> (\<lambda>ts. ts))
       ((case reconnectTimeoutRef s of Some h \<Rightarrow> cleared h | None \<Rightarrow> (\<lambda>ts. ts)) (timers s))"
  "reconnectTimeoutRef (handleDisconnect s) = None"
  "typingTimeoutRef (handleDisconnect s) = None"
  "rateLimitIntervalRef (handleDisconnect s) = rateLimitIntervalRef s"
  by (simp_all add: handleDisconnect_def Let_def split: option.splits)

lemma unmount_timers:
  "timers (unmount s) =
     (case typingTimeoutRef s of Some h \<Rightarrow> cleared h | None \<Rightarrow> (\<lambda>ts. ts))
       ((case rateLimitIntervalRef s of Some h \<Rightarrow> cleared h | None \<Rightarrow> (\<lambda>ts. ts))
         ((case reconnectTimeoutRef s of Some h \<Rightarrow> cleared h | None \<Rightarrow> (\<lambda>ts. ts)) (timers s)))"
  "reconnectTimeoutRef (unmount s) = reconnectTimeoutRef s"
  "typingTimeoutRef (unmount s) = typingTimeoutRef s"
  "rateLimitIntervalRef (unmount s) = rateLimitIntervalRef s"
  by (simp_all add: unmount_def Let_def split: option.splits)

subsection \<open>Every handler keeps the invariant\<close>

lemma tracked_mounted: "timers_tracked mounted"
  by (simp add: timers_tracked_def mounted_def tracked_Nil)

lemma tracked_render: "timers_tracked (render_effects s) = timers_tracked s"
  by (simp add: timers_tracked_def render_effects_def)

lemma tracked_connectWebSocket:
  assumes "timers_tracked s"
  shows "timers_tracked (connectWebSocket g u r s)"
  using assms unfolding timers_tracked_def connectWebSocket_timers
  by (auto split: option.splits intro: tracked_cleared_reconnect)

lemma tracked_ws_onopen:
  assumes "timers_tracked s"
  shows "timers_tracked (ws_onopen s)"
  using assms unfolding timers_tracked_def ws_onopen_def Let_def
  by (auto split: option.splits intro: tracked_cleared_reconnect)

lemma tracked_ws_onclose:
  assumes "timers_tracked s"
  shows "timers_tracked (ws_onclose g code reason s)"
  using assms unfolding timers_tracked_def ws_onclose_def Let_def setTimeout_def
  by (auto split: option.splits intro: tracked_add_reconnect)

lemma tracked_startRateLimitCountdown:
  assumes "timers_tracked s"
  shows "timers_tracked (startRateLimitCountdown n s)"
proof (cases "rateLimitIntervalRef s")
  case None
  with assms show ?thesis
    unfolding timers_tracked_def startRateLimitCountdown_def Let_def setInterval_def
    by (auto intro: tracked_add_tick)
next
  case (Some h)
  with assms have "tracked (cleared h (timers s)) (reconnectTimeoutRef s) (typingTimeoutRef s) None"
    unfolding timers_tracked_def by (auto intro: tracked_cleared_tick)
  with Some show ?thesis
    unfolding timers_tracked_def startRateLimitCountdown_def Let_def setInterval_def
    by (auto intro: tracked_add_tick)
qed

lemma tracked_rate_limit_tick:
  assumes "timers_tracked s"
  shows "timers_tracked (rate_limit_tick s)"
  using assms unfolding timers_tracked_def rate_limit_tick_def Let_def
  by (auto split: option.splits intro: tracked_cleared_tick)

lemma tracked_handleWebSocketMessage:
  assumes "timers_tracked s"
  shows "timers_tracked (handleWebSocketMessage d now s)"
proof (cases d)
  case (Rate_limit r)
  have a: "timers_tracked (s\<lparr>rateLimitSeconds := x, isRateLimited := True\<rparr>)" for x
    using assms by (simp add: timers_tracked_def)
  have "timers_tracked
      (startRateLimitCountdown x (s\<lparr>rateLimitSeconds := x, isRateLimited := True\<rparr>))" for x
    by (rule tracked_startRateLimitCountdown [OF a])
  with a Rate_limit show ?thesis
    by (simp add: timers_tracked_def Let_def)
qed (use assms in \<open>auto simp: timers_tracked_def Let_def split: option.splits\<close>)

lemma tracked_ws_onmessage:
  assumes "timers_tracked s"
  shows "timers_tracked (ws_onmessage d now s)"
  using assms tracked_handleWebSocketMessage by (auto simp: ws_onmessage_def split: option.splits)

lemma tracked_sendTypingIndicator:
  assumes "timers_tracked s"
  shows "timers_tracked (sendTypingIndicator c b now s)"
proof (cases "\<not> c \<or> \<not> ws_open s \<or> (b \<and> now - lastTypingSentRef s < 1000)")
  case True
  with assms show ?thesis by (auto simp: sendTypingIndicator_def)
next
  case False
  let ?s1 = "s\<lparr>lastTypingSentRef := now\<rparr>"
  show ?thesis
  proof (cases "ws_send (Typing_frame b) ?s1")
    case None
    with False assms show ?thesis by (simp add: sendTypingIndicator_def timers_tracked_def)
  next
    case (Some s2)
    from timers_ws_send [OF Some] assms
    have t2: "tracked (timers s2) (reconnectTimeoutRef s2) (typingTimeoutRef s2)
        (rateLimitIntervalRef s2)"
      by (simp add: timers_tracked_def)
    show ?thesis
    proof (cases "typingTimeoutRef s2")
      case None
      with t2 False Some show ?thesis
        unfolding timers_tracked_def sendTypingIndicator_def Let_def setTimeout_def
        by (auto intro: tracked_add_typing)
    next
      case h: (Some h)
      from t2 h have "tracked (cleared h (timers s2)) (reconnectTimeoutRef s2) None
          (rateLimitIntervalRef s2)"
        by (auto intro: tracked_cleared_typing)
      moreover from t2 h have "tracked (cleared h (timers s2)) (reconnectTimeoutRef s2) (Some h)
          (rateLimitIntervalRef s2)"
        by (auto intro: tracked_cleared_same)
      ultimately show ?thesis using False Some h
        unfolding timers_tracked_def sendTypingIndicator_def Let_def setTimeout_def
        by (auto intro: tracked_add_typing)
    qed
  qed
qed

lemma tracked_handleInputChange:
  assumes "timers_tracked s"
  shows "timers_tracked (handleInputChange v now s)"
proof -
  from assms have "timers_tracked (s\<lparr>messageInput := v\<rparr>)" by (simp add: timers_tracked_def)
  then show ?thesis
    by (simp add: handleInputChange_def Let_def tracked_sendTypingIndicator)
qed

lemma tracked_handleSendMessage:
  assumes "timers_tracked s"
  shows "timers_tracked (handleSendMessage now s)"
proof -
  let ?t = "trim (messageInput s)"
  let ?s1 = "sendTypingIndicator (isConnected s) False now s"
  let ?s2 = "?s1\<lparr>pendingMessage := ?t, pendingMessageRef := ?t\<rparr>"
  have s1: "timers_tracked ?s1" by (rule tracked_sendTypingIndicator [OF assms])
  then have s2: "timers_tracked ?s2" by (simp add: timers_tracked_def)
  have none: "timers_tracked (restore_pending (?s2\<lparr>error := Send_failed\<rparr>))"
    using s2 by (simp add: restore_pending_def timers_tracked_def)
  have some: "timers_tracked
      (if startRateLimitCountdownRef (s3\<lparr>messageInput := [], error := No_error\<rparr>)
       then startRateLimitCountdown 5 (s3\<lparr>messageInput := [], error := No_error\<rparr>)
       else s3\<lparr>messageInput := [], error := No_error\<rparr>)"
    if "ws_send (Message_frame ?t) ?s2 = Some s3" for s3
  proof -
    from timers_ws_send [OF that] s2
    have "timers_tracked (s3\<lparr>messageInput := [], error := No_error\<rparr>)"
      by (simp add: timers_tracked_def)
    then show ?thesis by (simp add: tracked_startRateLimitCountdown)
  qed
  show ?thesis
    using assms none some
    by (auto simp: handleSendMessage_def Let_def timers_tracked_def split: option.splits)
qed

lemma tracked_handleDisconnect:
  assumes "timers_tracked s"
  shows "timers_tracked (handleDisconnect s)"
proof -
  let ?ts = "(case reconnectTimeoutRef s of Some h \<Rightarrow> cleared h | None \<Rightarrow> (\<lambda>ts. ts)) (timers s)"
  have 1: "tracked ?ts None (typingTimeoutRef s) (rateLimitIntervalRef s)"
    using assms
    by (auto simp: timers_tracked_def split: option.splits intro: tracked_cleared_reconnect)
  have "tracked ((case typingTimeoutRef s of Some h \<Rightarrow> cleared h | None \<Rightarrow> (\<lambda>ts. ts)) ?ts)
          None None (rateLimitIntervalRef s)"
  proof (cases "typingTimeoutRef s")
    case None
    with 1 show ?thesis by simp
  next
    case (Some h)
    with 1 show ?thesis by (simp add: tracked_cleared_typing)
  qed
  then show ?thesis
    by (simp add: timers_tracked_def handleDisconnect_timers)
qed

lemma tracked_unmount:
  assumes "timers_tracked s"
  shows "timers_tracked (unmount s)"
  using assms unfolding timers_tracked_def unmount_timers
  by (intro tracked_clear_opt)

lemma tracked_handleJoin:
  assumes "timers_tracked s"
  shows "timers_tracked (handleJoin U s)"
proof -
  have "timers_tracked (s\<lparr>groupId := x\<rparr>)" for x
    using assms by (simp add: timers_tracked_def)
  then show ?thesis
    using assms
    by (auto simp: handleJoin_def Let_def tracked_connectWebSocket)
      (simp_all add: timers_tracked_def)
qed

lemma tracked_timer_fire:
  assumes "timers_tracked s"
  shows "timers_tracked (timer_fire h now s)"
proof (cases "find (\<lambda>t. t_handle t = h) (timers s)")
  case None
  with assms show ?thesis by (simp add: timer_fire_def)
next
  case (Some t)
  let ?s = "if t_repeat t then s else clearTimeout h s"
  have a: "timers_tracked ?s"
    using assms by (auto simp: timers_tracked_def intro: tracked_cleared_same)
  have "timers_tracked (run_callback cb now ?s)" for cb
  proof (cases cb)
    case (Reconnect g)
    from a have "timers_tracked (?s\<lparr>error := Reconnecting\<rparr>)" by (simp add: timers_tracked_def)
    from tracked_connectWebSocket [OF this] Reconnect show ?thesis
      by (simp add: run_callback_def)
  next
    case (Typing_stop c)
    with a show ?thesis by (simp add: run_callback_def tracked_sendTypingIndicator)
  next
    case Rate_limit_tick
    with a show ?thesis by (simp add: run_callback_def tracked_rate_limit_tick)
  qed
  with Some show ?thesis by (simp add: timer_fire_def)
qed

lemma tracked_handle_event:
  assumes "timers_tracked s"
  shows "timers_tracked (handle_event U ev s)"
proof (cases ev)
  case (Ws_open k)
  have "timers_tracked (ws_onopen (s\<lparr>sockets := m\<rparr>))" for m
    using assms by (intro tracked_ws_onopen) (simp add: timers_tracked_def)
  with assms Ws_open show ?thesis by (simp split: option.splits)
next
  case (Ws_close k code reason)
  have "timers_tracked (ws_onclose g code reason (s\<lparr>sockets := m\<rparr>))" for m g
    using assms by (intro tracked_ws_onclose) (simp add: timers_tracked_def)
  with assms Ws_close show ?thesis by (simp split: option.splits)
next
  case (Username_input v)
  with assms show ?thesis by (simp add: timers_tracked_def)
next
  case (Room_input v)
  with assms show ?thesis by (simp add: timers_tracked_def)
qed (use assms in \<open>simp_all add: tracked_handleJoin tracked_handleInputChange
      tracked_handleSendMessage tracked_handleDisconnect tracked_ws_onmessage tracked_timer_fire
      tracked_unmount split: option.splits\<close>)

lemma tracked_step:
  assumes "timers_tracked s"
  shows "timers_tracked (step U ev s)"
  using assms by (simp add: step_def tracked_render tracked_handle_event)

lemma tracked_run:
  assumes "timers_tracked s"
  shows "timers_tracked (run U evs s)"
  using assms unfolding run_def
  by (induction evs arbitrary: s) (simp_all add: tracked_step)

lemma tracked_reachable: "timers_tracked (run U evs mounted)"
  by (rule tracked_run [OF tracked_mounted])

section \<open>Reconnection and teardown\<close>

text \<open>
  C4. In every reachable state at most one reconnect timer is pending. \<open>ws.onclose\<close> either
  leaves the timer table as it is, or the close code is not 1000, the remembered username and
  the captured room are non-empty, no reconnect timer is pending, and exactly one timeout of
  3000 ms with the reconnect callback is added. After \<open>connectWebSocket\<close> no reconnect timer
  is pending and \<open>reconnectTimeoutRef\<close> is null.
\<close>

theorem reconnect_timer_discipline:
  assumes "s = run U evs mounted"
  shows "length (filter is_reconnect (timers s)) \<le> 1 \<and>
    (timers (ws_onclose g code reason s) = timers s \<or>
       code \<noteq> 1000 \<and> usernameRef s \<noteq> [] \<and> g \<noteq> [] \<and> filter is_reconnect (timers s) = [] \<and>
       timers (ws_onclose g code reason s) =
         timers s @ [\<lparr>t_handle = Suc (timer_seq s), t_repeat = False, t_delay = 3000,
                       t_callback = Reconnect g\<rparr>]) \<and>
    filter is_reconnect (timers (connectWebSocket g' u r s)) = [] \<and>
    reconnectTimeoutRef (connectWebSocket g' u r s) = None"
proof -
  have inv: "timers_tracked s" unfolding assms by (rule tracked_reachable)
  then have 1: "length (filter is_reconnect (timers s)) \<le> 1"
    by (simp add: timers_tracked_def tracked_def)
  have "filter is_reconnect (timers s) = []" if "reconnectTimeoutRef s = None"
    using inv that by (auto simp: timers_tracked_def intro: tracked_no_reconnect)
  then have 2: "timers (ws_onclose g code reason s) = timers s \<or>
       code \<noteq> 1000 \<and> usernameRef s \<noteq> [] \<and> g \<noteq> [] \<and> filter is_reconnect (timers s) = [] \<and>
       timers (ws_onclose g code reason s) =
         timers s @ [\<lparr>t_handle = Suc (timer_seq s), t_repeat = False, t_delay = 3000,
                       t_callback = Reconnect g\<rparr>]"
    by (simp add: ws_onclose_timers)
  have "timers_tracked (connectWebSocket g' u r s)"
    by (rule tracked_connectWebSocket [OF inv])
  then have 3: "filter is_reconnect (timers (connectWebSocket g' u r s)) = []"
    unfolding timers_tracked_def connectWebSocket_timers(2) by (rule tracked_no_reconnect)
  from 1 2 3 show ?thesis by (simp add: connectWebSocket_timers(2))
qed

theorem reconnect_timer_discipline_witness:
  "timers alice_joined = [] \<and>
   timers (ws_onclose (js ''ABC12'') 1000 [] alice_joined) = [] \<and>
   timers (ws_onclose (js ''ABC12'') 1006 [] alice_joined) =
     [\<lparr>t_handle = 1, t_repeat = False, t_delay = 3000, t_callback = Reconnect (js ''ABC12'')\<rparr>] \<and>
   timers (ws_onclose (js ''ABC12'') 1006 []
     (step toUpperCase_ascii (Ws_close 1 1006 []) alice_joined)) =
     [\<lparr>t_handle = 1, t_repeat = False, t_delay = 3000, t_callback = Reconnect (js ''ABC12'')\<rparr>] \<and>
   filter is_reconnect (timers (connectWebSocket (js ''ABC12'') (js ''alice'') (js ''ABC12'')
     (step toUpperCase_ascii (Ws_close 1 1006 []) alice_joined))) = []"
proof -
  let ?evs = "[Username_input (js ''alice''), Room_input (js ''abc12''), Submit_join, Ws_open 1]"
  have r: "alice_joined = run toUpperCase_ascii ?evs mounted"
    by (simp add: alice_joined_def)
  have r': "step toUpperCase_ascii (Ws_close 1 1006 []) alice_joined =
      run toUpperCase_ascii (?evs @ [Ws_close 1 1006 []]) mounted"
    by (simp add: alice_joined_def run_def)
  have t: "timers alice_joined = []" by code_simp
  have c: "timers (ws_onclose (js ''ABC12'') 1000 [] alice_joined) = []" by code_simp
  have d: "timers (ws_onclose (js ''ABC12'') 1006 [] alice_joined) =
     [\<lparr>t_handle = 1, t_repeat = False, t_delay = 3000, t_callback = Reconnect (js ''ABC12'')\<rparr>]"
    by code_simp
  have e: "timers (ws_onclose (js ''ABC12'') 1006 []
     (step toUpperCase_ascii (Ws_close 1 1006 []) alice_joined)) =
     [\<lparr>t_handle = 1, t_repeat = False, t_delay = 3000, t_callback = Reconnect (js ''ABC12'')\<rparr>]"
    by code_simp
  from reconnect_timer_discipline [OF r, of "js ''ABC12''" 1006 "[]" "js ''ABC12''" "js ''alice''" "js ''ABC12''"]
    reconnect_timer_discipline [OF r', of "js ''ABC12''" 1006 "[]" "js ''ABC12''" "js ''alice''" "js ''ABC12''"]
    t c d e
  show ?thesis by simp
qed




end
